theory Spec2Isabelle
  imports Complex_Main "HOL-Library.Char_ord" "HOL-Library.List_Lexorder"
    "HOL-Library.Product_Lexorder" "HOL-Library.Multiset" "HOL-Library.Sublist"
begin

section \<open>JavaScript values and coercions\<close>

text \<open>
  The handlers read JSON request bodies and query strings, so a field can hold any JSON
  value, or be absent (\<open>Undefined\<close>). Numbers of a request are modelled at their integer
  values (of magnitude below \<open>10^21\<close>, where \<open>String\<close> prints plain decimal digits);
  strings are byte strings. An object is the list of its own properties in the order of
  the text; a later duplicate key overrides an earlier one, as \<open>JSON.parse\<close> does.
\<close>

datatype jsval = Undefined | Null | Bool bool | Num int | Str string
  | Arr "jsval list" | Obj "(string \<times> jsval) list"

text \<open>
  A JavaScript number, as \<open>Number(...)\<close> computes it. A finite number is kept at its exact
  mathematical value: the rounding to a double, which changes integers only beyond
  \<open>2^53\<close> (and ends in \<open>Infinity\<close> beyond the largest double), is not modelled.
  \<open>Infinity True\<close> is \<open>+Infinity\<close>.
\<close>

datatype jsnum = NaN | Fin rat | Infinity bool

definition truthy :: "jsval \<Rightarrow> bool" where
  "truthy v = (case v of Undefined \<Rightarrow> False | Null \<Rightarrow> False | Bool b \<Rightarrow> b
     | Num n \<Rightarrow> n \<noteq> 0 | Str s \<Rightarrow> s \<noteq> [] | Arr _ \<Rightarrow> True | Obj _ \<Rightarrow> True)"

text \<open>\<open>a ?? d\<close>\<close>

definition nullish_or :: "jsval \<Rightarrow> jsval \<Rightarrow> jsval" where
  "nullish_or v d = (if v = Undefined \<or> v = Null then d else v)"

text \<open>\<open>a || d\<close> on request values and on numbers (\<open>0\<close> and \<open>NaN\<close> are falsy).\<close>

definition or_js :: "jsval \<Rightarrow> jsval \<Rightarrow> jsval" where
  "or_js v d = (if truthy v then v else d)"

definition num_or :: "jsnum \<Rightarrow> jsnum \<Rightarrow> jsnum" where
  "num_or n d = (if n = NaN \<or> n = Fin 0 then d else n)"

definition isNaN :: "jsnum \<Rightarrow> bool" where
  "isNaN n = (n = NaN)"

text \<open>
  Reading a property by name. The handlers read only names that no prototype defines
  (\<open>year\<close>, \<open>make\<close>, \<open>mileage\<close>, ...), so a value that is not an object with that own
  property gives \<open>undefined\<close>.
\<close>

definition get_prop :: "jsval \<Rightarrow> string \<Rightarrow> jsval" where
  "get_prop v k = (case v of
       Obj kvs \<Rightarrow> (case map_of (rev kvs) k of Some x \<Rightarrow> x | None \<Rightarrow> Undefined)
     | _ \<Rightarrow> Undefined)"

subsection \<open>Digits and decimal notation\<close>

definition is_digit :: "char \<Rightarrow> bool" where
  "is_digit c = (c \<in> set ''0123456789'')"

definition digit_val :: "char \<Rightarrow> nat" where
  "digit_val c = of_char c - 48"

definition dec_value :: "string \<Rightarrow> nat" where
  "dec_value s = foldl (\<lambda>a c. 10 * a + digit_val c) 0 s"

fun dec_digits :: "nat \<Rightarrow> string" where
  "dec_digits n = (if n < 10 then [''0123456789'' ! n]
     else dec_digits (n div 10) @ [''0123456789'' ! (n mod 10)])"

definition show_int :: "int \<Rightarrow> string" where
  "show_int n = (if n < 0 then CHR ''-'' # dec_digits (nat (- n)) else dec_digits (nat n))"

text \<open>\<open>s.replace(/[^\d]/g, "")\<close>: \<open>\d\<close> is the ten ASCII digits.\<close>

definition digits_only :: "string \<Rightarrow> string" where
  "digits_only s = filter is_digit s"

subsection \<open>\<open>String(v)\<close>\<close>

text \<open>
  \<open>String\<close> of an array joins the elements with commas, \<open>null\<close> and \<open>undefined\<close> elements
  giving the empty string. \<open>String\<close> of an object calls its \<open>toString\<close>: the inherited one
  answers \<open>[object Object]\<close>; an own property named \<open>toString\<close> (never callable in JSON)
  hides it and the conversion throws a TypeError, which is \<open>None\<close> here.
\<close>

fun String_js :: "jsval \<Rightarrow> string option"
  and join_js :: "jsval list \<Rightarrow> string option" where
  "String_js Undefined = Some ''undefined''"
| "String_js Null = Some ''null''"
| "String_js (Bool b) = Some (if b then ''true'' else ''false'')"
| "String_js (Num n) = Some (show_int n)"
| "String_js (Str s) = Some s"
| "String_js (Arr xs) = join_js xs"
| "String_js (Obj kvs) =
     (if ''toString'' \<in> fst ` set kvs then None else Some ''[object Object]'')"
| "join_js [] = Some []"
| "join_js (x # xs) =
     (case (if x = Undefined \<or> x = Null then Some [] else String_js x) of
        None \<Rightarrow> None
      | Some a \<Rightarrow> (if xs = [] then Some a
          else (case join_js xs of None \<Rightarrow> None | Some b \<Rightarrow> Some (a @ '','' @ b))))"

subsection \<open>\<open>Number(v)\<close>\<close>

definition is_space :: "char \<Rightarrow> bool" where
  "is_space c = (c \<in> set [CHR 0x09, CHR 0x0A, CHR 0x0B, CHR 0x0C, CHR 0x0D, CHR '' ''])"

definition trim_js :: "string \<Rightarrow> string" where
  "trim_js s = rev (dropWhile is_space (rev (dropWhile is_space s)))"

definition scale10 :: "rat \<Rightarrow> int \<Rightarrow> rat" where
  "scale10 m e = (if 0 \<le> e then m * 10 ^ nat e else m / 10 ^ nat (- e))"

definition int_digits :: "string \<Rightarrow> int option" where
  "int_digits ds = (if ds \<noteq> [] \<and> list_all is_digit ds then Some (int (dec_value ds)) else None)"

definition exponent_part :: "string \<Rightarrow> int option" where
  "exponent_part r = (case r of
       [] \<Rightarrow> Some 0
     | c # d \<Rightarrow>
         if c = CHR ''e'' \<or> c = CHR ''E'' then
           (case d of
              [] \<Rightarrow> None
            | x # ds \<Rightarrow>
                if x = CHR ''+'' then int_digits ds
                else if x = CHR ''-'' then map_option uminus (int_digits ds)
                else int_digits d)
         else None)"

definition unsigned_decimal :: "string \<Rightarrow> jsnum" where
  "unsigned_decimal u =
     (if u = ''Infinity'' then Infinity True
      else
        let ip = takeWhile is_digit u;
            r1 = dropWhile is_digit u;
            dot = (r1 \<noteq> [] \<and> hd r1 = CHR ''.'');
            fp = (if dot then takeWhile is_digit (tl r1) else []);
            r2 = (if dot then dropWhile is_digit (tl r1) else r1)
        in if ip = [] \<and> fp = [] then NaN
           else (case exponent_part r2 of
                   None \<Rightarrow> NaN
                 | Some e \<Rightarrow>
                     Fin (scale10 (of_nat (dec_value ip)
                            + of_nat (dec_value fp) / 10 ^ length fp) e)))"

definition negate :: "jsnum \<Rightarrow> jsnum" where
  "negate n = (case n of NaN \<Rightarrow> NaN | Fin r \<Rightarrow> Fin (- r) | Infinity b \<Rightarrow> Infinity (\<not> b))"

definition signed_decimal :: "string \<Rightarrow> jsnum" where
  "signed_decimal t = (case t of
       [] \<Rightarrow> NaN
     | c # u \<Rightarrow>
         if c = CHR ''+'' then unsigned_decimal u
         else if c = CHR ''-'' then negate (unsigned_decimal u)
         else unsigned_decimal t)"

definition radix_digit :: "char \<Rightarrow> nat option" where
  "radix_digit c =
     (if is_digit c then Some (of_char c - 48)
      else if c \<in> set ''abcdef'' then Some (of_char c - 87)
      else if c \<in> set ''ABCDEF'' then Some (of_char c - 55)
      else None)"

definition radix_literal :: "nat \<Rightarrow> string \<Rightarrow> jsnum" where
  "radix_literal b ds =
     (if ds \<noteq> [] \<and> list_all (\<lambda>c. case radix_digit c of None \<Rightarrow> False | Some d \<Rightarrow> d < b) ds
      then Fin (of_nat (foldl (\<lambda>a c. b * a + the (radix_digit c)) 0 ds))
      else NaN)"

text \<open>
  \<open>Number\<close> of a string: white space is trimmed (the ASCII white space here) and the rest
  is read by the grammar of numeric string literals; the empty string is \<open>0\<close> and a
  string outside the grammar is \<open>NaN\<close>.
\<close>

definition StringToNumber :: "string \<Rightarrow> jsnum" where
  "StringToNumber s =
     (let t = trim_js s in
      if t = [] then Fin 0
      else if length t \<ge> 2 \<and> hd t = CHR ''0'' \<and> t ! 1 \<in> set ''xX''
        then radix_literal 16 (drop 2 t)
      else if length t \<ge> 2 \<and> hd t = CHR ''0'' \<and> t ! 1 \<in> set ''oO''
        then radix_literal 8 (drop 2 t)
      else if length t \<ge> 2 \<and> hd t = CHR ''0'' \<and> t ! 1 \<in> set ''bB''
        then radix_literal 2 (drop 2 t)
      else signed_decimal t)"

text \<open>
  \<open>Number\<close> of a value. An array or object is first turned into a string as \<open>String\<close>
  does (its \<open>valueOf\<close> returns the object itself), so it throws where \<open>String\<close> throws.
\<close>

definition Number_js :: "jsval \<Rightarrow> jsnum option" where
  "Number_js v = (case v of
       Undefined \<Rightarrow> Some NaN
     | Null \<Rightarrow> Some (Fin 0)
     | Bool b \<Rightarrow> Some (Fin (if b then 1 else 0))
     | Num n \<Rightarrow> Some (Fin (of_int n))
     | Str s \<Rightarrow> Some (StringToNumber s)
     | _ \<Rightarrow> map_option StringToNumber (String_js v))"

section \<open>The vehicles table and the store\<close>

text \<open>
  A value bound to a statement parameter: a number the handler computed, or a value of
  the request passed on as it came. The conversion of a parameter to the column's type
  is the store's, and the definition of the \<open>vehicles\<close> and \<open>service_history\<close> tables is
  not part of the repository: a row is modelled by the values the handler bound.
\<close>

datatype param = PNumber jsnum | PValue jsval

text \<open>
  A row of \<open>vehicles\<close>. \<open>v_id\<close> comes from the table's identity sequence. The column
  \<open>created_at\<close> is filled by the store and read by no handler; it is left out. A reply
  that carries a row reads \<open>mileage\<close> back as text (\<open>mileage::text\<close>).
\<close>

record vehicle_row =
  v_id :: nat
  v_year :: param
  v_make :: jsval
  v_model :: jsval
  v_mileage :: param

text \<open>
  The table: its rows in the order of insertion, and the next value of the identity
  sequence (\<open>1\<close> on a new or truncated table). A statement that raises leaves the table
  as it was.
\<close>

record vehicles_table =
  rows :: "vehicle_row list"
  next_id :: nat

definition empty_vehicles :: vehicles_table where
  "empty_vehicles = \<lparr>rows = [], next_id = 1\<rparr>"

text \<open>
  The JSON of a reply: \<open>{error: msg}\<close>, \<open>{error: err.message}\<close> with the store's own
  message, a row, \<open>{success: true, vehicle: row}\<close>, an array of rows,
  \<open>{success: true, deletedId: id}\<close> and \<open>{success: true, message: msg}\<close>.
\<close>

datatype 'r reply = Error string | StoreMessage | Row 'r | SuccessRow 'r | Rows "'r list"
  | Deleted nat | Message string

record 'r response =
  status :: nat
  body :: "'r reply"

text \<open>
  Every handler sends one statement to the store. The store may raise (no connection, a
  parameter the column's type rejects, a constraint of the table): the flag \<open>raises\<close> of a
  handler says that it does, and the handler's \<open>catch\<close> answers 500. An \<open>:id\<close> of the route
  is given as the identity value the store reads it as; an \<open>:id\<close> the store cannot read
  is a raising statement.
\<close>

subsection \<open>\<open>POST /api/vehicles\<close>\<close>

definition post_vehicles ::
  "bool \<Rightarrow> jsval \<Rightarrow> vehicles_table \<Rightarrow> vehicle_row response \<times> vehicles_table" where
  "post_vehicles raises req_body t =
     (if req_body = Undefined \<or> req_body = Null
      then (\<lparr>status = 500, body = Error ''Failed to save vehicle''\<rparr>, t)
      else
        let year = get_prop req_body ''year'';
            make = get_prop req_body ''make'';
            model = get_prop req_body ''model'';
            mileage = get_prop req_body ''mileage''
        in if \<not> truthy year \<or> \<not> truthy make \<or> \<not> truthy model
           then (\<lparr>status = 400, body = Error ''year, make, and model are required''\<rparr>, t)
           else (case String_js (nullish_or mileage (Str ''0'')) of
               None \<Rightarrow> (\<lparr>status = 500, body = Error ''Failed to save vehicle''\<rparr>, t)
             | Some s \<Rightarrow>
                 let miles = num_or (StringToNumber (digits_only s)) (Fin 0) in
                 (case Number_js year of
                    None \<Rightarrow> (\<lparr>status = 500, body = Error ''Failed to save vehicle''\<rparr>, t)
                  | Some y \<Rightarrow>
                      if raises
                      then (\<lparr>status = 500, body = Error ''Failed to save vehicle''\<rparr>, t)
                      else
                        let r = \<lparr>v_id = next_id t, v_year = PNumber y, v_make = make,
                                 v_model = model, v_mileage = PNumber miles\<rparr>
                        in (\<lparr>status = 201, body = Row r\<rparr>,
                            \<lparr>rows = rows t @ [r], next_id = Suc (next_id t)\<rparr>))))"

subsection \<open>\<open>GET /api/vehicles\<close>\<close>

text \<open>\<open>ORDER BY id DESC\<close>\<close>

definition order_by_id_desc :: "vehicle_row list \<Rightarrow> vehicle_row list" where
  "order_by_id_desc rs = sort_key (\<lambda>r. - int (v_id r)) rs"

definition get_vehicles :: "bool \<Rightarrow> vehicles_table \<Rightarrow> vehicle_row response" where
  "get_vehicles raises t =
     (if raises then \<lparr>status = 500, body = Error ''Failed to fetch vehicles''\<rparr>
      else \<lparr>status = 200, body = Rows (order_by_id_desc (rows t))\<rparr>)"

subsection \<open>\<open>DELETE /api/vehicles/all\<close>\<close>

text \<open>
  \<open>TRUNCATE TABLE vehicles RESTART IDENTITY CASCADE\<close>. What \<open>CASCADE\<close> empties besides
  is a matter of the foreign keys of other tables and outside this table's state.
\<close>

definition delete_all_vehicles ::
  "bool \<Rightarrow> vehicles_table \<Rightarrow> vehicle_row response \<times> vehicles_table" where
  "delete_all_vehicles raises t =
     (if raises then (\<lparr>status = 500, body = StoreMessage\<rparr>, t)
      else (\<lparr>status = 200, body = Message ''All vehicles deleted.''\<rparr>,
            \<lparr>rows = [], next_id = 1\<rparr>))"

subsection \<open>\<open>PATCH /api/vehicles/:id\<close>\<close>

definition patch_vehicle ::
  "bool \<Rightarrow> nat \<Rightarrow> jsval \<Rightarrow> vehicles_table \<Rightarrow> vehicle_row response \<times> vehicles_table" where
  "patch_vehicle raises ident req_body t =
     (case String_js (nullish_or (get_prop req_body ''mileage'') (Str ''0'')) of
        None \<Rightarrow> (\<lparr>status = 500, body = Error ''Failed to update vehicle''\<rparr>, t)
      | Some s \<Rightarrow>
          let miles = StringToNumber (digits_only s) in
          if isNaN miles
          then (\<lparr>status = 400, body = Error ''Mileage must be a number''\<rparr>, t)
          else if raises
          then (\<lparr>status = 500, body = Error ''Failed to update vehicle''\<rparr>, t)
          else
            let updated = map (\<lambda>r. if v_id r = ident then r\<lparr>v_mileage := PNumber miles\<rparr> else r)
                            (rows t);
                returned = filter (\<lambda>r. v_id r = ident) updated
            in (case returned of
                  [] \<Rightarrow> (\<lparr>status = 404, body = Error ''Vehicle not found''\<rparr>, t)
                | r # _ \<Rightarrow> (\<lparr>status = 200, body = Row r\<rparr>, t\<lparr>rows := updated\<rparr>)))"

subsection \<open>\<open>DELETE /api/vehicles/:id\<close>\<close>

definition delete_vehicle ::
  "bool \<Rightarrow> nat \<Rightarrow> vehicles_table \<Rightarrow> vehicle_row response \<times> vehicles_table" where
  "delete_vehicle raises ident t =
     (if raises then (\<lparr>status = 500, body = Error ''Failed to delete vehicle''\<rparr>, t)
      else
        let rowCount = length (filter (\<lambda>r. v_id r = ident) (rows t)) in
        if rowCount = 0 then (\<lparr>status = 404, body = Error ''Vehicle not found''\<rparr>, t)
        else (\<lparr>status = 200, body = Deleted ident\<rparr>,
              t\<lparr>rows := filter (\<lambda>r. v_id r \<noteq> ident) (rows t)\<rparr>))"

subsection \<open>The second revision of the server\<close>

text \<open>
  It has the two routes \<open>POST /api/vehicles\<close> and \<open>GET /api/vehicles\<close> only. Its \<open>POST\<close>
  binds the four fields as they came, without a check, and reads the body outside the
  \<open>try\<close>: on a body that is \<open>undefined\<close> the handler throws and sends nothing, which is
  \<open>None\<close>. Its \<open>GET\<close> is \<open>SELECT * FROM vehicles\<close> with no \<open>ORDER BY\<close>: the rows come in
  the order of the store's scan, the parameter \<open>scan\<close>.
\<close>

definition post_vehicles_rev2 ::
  "bool \<Rightarrow> jsval \<Rightarrow> vehicles_table \<Rightarrow> vehicle_row response option \<times> vehicles_table" where
  "post_vehicles_rev2 raises req_body t =
     (if req_body = Undefined \<or> req_body = Null then (None, t)
      else
        let year = get_prop req_body ''year'';
            make = get_prop req_body ''make'';
            model = get_prop req_body ''model'';
            mileage = get_prop req_body ''mileage''
        in if raises
           then (Some \<lparr>status = 500, body = Error ''Failed to save vehicle''\<rparr>, t)
           else
             let r = \<lparr>v_id = next_id t, v_year = PValue year, v_make = make,
                      v_model = model, v_mileage = PValue mileage\<rparr>
             in (Some \<lparr>status = 201, body = SuccessRow r\<rparr>,
                 \<lparr>rows = rows t @ [r], next_id = Suc (next_id t)\<rparr>))"

definition get_vehicles_rev2 ::
  "bool \<Rightarrow> (vehicle_row list \<Rightarrow> vehicle_row list) \<Rightarrow> vehicles_table \<Rightarrow> vehicle_row response" where
  "get_vehicles_rev2 raises scan t =
     (if raises then \<lparr>status = 500, body = Error ''Failed to fetch vehicles''\<rparr>
      else \<lparr>status = 200, body = Rows (scan (rows t))\<rparr>)"

subsection \<open>Tables the handlers can produce\<close>



definition carries_row :: "'r reply \<Rightarrow> bool" where
  "carries_row b = (case b of Row _ \<Rightarrow> True | SuccessRow _ \<Rightarrow> True | _ \<Rightarrow> False)"

subsection \<open>The example of the specification\<close>

definition civic_body :: jsval where
  "civic_body = Obj [(''year'', Num 2020), (''make'', Str ''Honda''), (''model'', Str ''Civic'')]"

definition civic_row :: vehicle_row where
  "civic_row = \<lparr>v_id = 1, v_year = PNumber (Fin 2020), v_make = Str ''Honda'',
     v_model = Str ''Civic'', v_mileage = PNumber (Fin 0)\<rparr>"

definition civic_table :: vehicles_table where
  "civic_table = \<lparr>rows = [civic_row], next_id = 2\<rparr>"

definition driven_table :: vehicles_table where
  "driven_table = \<lparr>rows = [civic_row\<lparr>v_mileage := PNumber (Fin 42000)\<rparr>], next_id = 2\<rparr>"



section \<open>The service history\<close>

text \<open>
  A row of \<open>service_history\<close>, by the values the handler binds; \<open>s_id\<close> is the identity
  column. The driver sends \<open>undefined\<close> as \<open>NULL\<close>.
\<close>

record service_row =
  s_id :: nat
  s_vehicle_id :: jsval
  s_service_name :: jsval
  s_mileage :: jsval
  s_interval :: jsval
  s_service_date :: jsval
  s_cost :: jsval
  s_notes :: jsval

record services_table =
  s_rows :: "service_row list"
  s_next_id :: nat

subsection \<open>\<open>POST /api/services\<close>\<close>

definition post_services ::
  "bool \<Rightarrow> jsval \<Rightarrow> services_table \<Rightarrow> service_row response \<times> services_table" where
  "post_services raises req_body t =
     (if req_body = Undefined \<or> req_body = Null
      then (\<lparr>status = 500, body = Error ''Failed to create service record''\<rparr>, t)
      else
        let vehicle_id = get_prop req_body ''vehicle_id'';
            service_name = get_prop req_body ''service_name'';
            mileage = get_prop req_body ''mileage'';
            interval = get_prop req_body ''interval'';
            service_date = get_prop req_body ''service_date'';
            cost = get_prop req_body ''cost'';
            notes = get_prop req_body ''notes''
        in if \<not> truthy vehicle_id \<or> \<not> truthy service_name
           then (\<lparr>status = 400, body = Error ''vehicle_id and service_name are required''\<rparr>, t)
           else if raises
           then (\<lparr>status = 500, body = Error ''Failed to create service record''\<rparr>, t)
           else
             let r = \<lparr>s_id = s_next_id t, s_vehicle_id = vehicle_id,
                      s_service_name = service_name, s_mileage = mileage,
                      s_interval = or_js interval Null,
                      s_service_date = or_js service_date Null,
                      s_cost = or_js cost Null, s_notes = or_js notes Null\<rparr>
             in (\<lparr>status = 201, body = Row r\<rparr>,
                 \<lparr>s_rows = s_rows t @ [r], s_next_id = Suc (s_next_id t)\<rparr>))"

definition oil_body :: jsval where
  "oil_body = Obj [(''vehicle_id'', Num 1), (''service_name'', Str ''Oil change''),
     (''mileage'', Num 0), (''interval'', Num 0), (''service_date'', Str []),
     (''cost'', Num 0), (''notes'', Str [])]"

section \<open>The vehicle catalog\<close>


subsection \<open>\<open>ILIKE\<close>\<close>





subsection \<open>\<open>GET /api/catalog\<close>\<close>







text \<open>\<open>s.includes(v)\<close>: \<open>v\<close> occurs in \<open>s\<close> as a run of consecutive characters.\<close>

fun str_includes :: "string \<Rightarrow> string \<Rightarrow> bool" where
  "str_includes [] v = (v = [])"
| "str_includes (c # s) v = (take (length v) (c # s) = v \<or> str_includes s v)"

subsection \<open>Query strings, and the claim's words\<close>









section \<open>Catalog ingestion: the models of a make and year\<close>







section \<open>Properties\<close>

subsection \<open>Numbers from digit strings\<close>

lemma digit_not_space: "is_digit c \<Longrightarrow> \<not> is_space c"
  by (auto simp: is_digit_def is_space_def)

lemma trim_js_digits: "list_all is_digit s \<Longrightarrow> trim_js s = s"
proof -
  assume a: "list_all is_digit s"
  have 1: "dropWhile is_space s = s"
    using a by (cases s) (simp_all add: digit_not_space)
  have "list_all is_digit (rev s)" using a by (simp add: list_all_iff)
  then have 2: "dropWhile is_space (rev s) = rev s"
    by (cases "rev s") (simp_all add: digit_not_space)
  show ?thesis by (simp add: trim_js_def 1 2)
qed

lemma unsigned_decimal_digits:
  assumes "list_all is_digit s" "s \<noteq> []"
  shows "unsigned_decimal s = Fin (of_nat (dec_value s))"
proof -
  have tw: "takeWhile is_digit s = s" using assms by (simp add: takeWhile_eq_all_conv list_all_iff)
  have dw: "dropWhile is_digit s = []" using assms by (simp add: dropWhile_eq_Nil_conv list_all_iff)
  have ni: "s \<noteq> ''Infinity''" using assms by (auto simp: is_digit_def)
  show ?thesis
    using assms ni by (simp add: unsigned_decimal_def tw dw exponent_part_def scale10_def dec_value_def)
qed

lemma signed_decimal_digits:
  assumes "list_all is_digit s" "s \<noteq> []"
  shows "signed_decimal s = Fin (of_nat (dec_value s))"
proof -
  obtain c u where s: "s = c # u" using assms by (cases s) auto
  then have "is_digit c" using assms by simp
  then have "c \<noteq> CHR ''+''" "c \<noteq> CHR ''-''" by (auto simp: is_digit_def)
  then show ?thesis using unsigned_decimal_digits[OF assms] s by (simp add: signed_decimal_def)
qed

lemma StringToNumber_digits:
  assumes "list_all is_digit s"
  shows "StringToNumber s = Fin (of_nat (dec_value s))"
proof (cases "s = []")
  case True
  then show ?thesis by (simp add: StringToNumber_def trim_js_def dec_value_def)
next
  case False
  have d1: "is_digit (s ! 1)" if "length s \<ge> 2"
  proof -
    have "s ! 1 \<in> set s" using that by (simp add: nth_mem)
    then show ?thesis using assms by (simp add: list_all_iff)
  qed
  have x: "\<not> (length s \<ge> 2 \<and> hd s = CHR ''0'' \<and> s ! 1 \<in> set ''xX'')"
    using d1 by (auto simp: is_digit_def)
  have o: "\<not> (length s \<ge> 2 \<and> hd s = CHR ''0'' \<and> s ! 1 \<in> set ''oO'')"
    using d1 by (auto simp: is_digit_def)
  have b: "\<not> (length s \<ge> 2 \<and> hd s = CHR ''0'' \<and> s ! 1 \<in> set ''bB'')"
    using d1 by (auto simp: is_digit_def)
  have "StringToNumber s = signed_decimal s"
    unfolding StringToNumber_def trim_js_digits[OF assms] Let_def
    using False x o b by presburger
  then show ?thesis
    using signed_decimal_digits[OF assms False] by simp
qed

lemma digits_only_all: "list_all is_digit (digits_only s)"
  by (simp add: digits_only_def list_all_iff)

lemma Number_sanitized: "StringToNumber (digits_only s) = Fin (of_nat (dec_value (digits_only s)))"
  by (rule StringToNumber_digits[OF digits_only_all])

lemma num_or_sanitized:
  "num_or (StringToNumber (digits_only s)) (Fin 0) = Fin (of_nat (dec_value (digits_only s)))"
  by (simp add: Number_sanitized num_or_def)

lemma patch_vehicle_never_400: "status (fst (patch_vehicle raises ident req_body t)) \<noteq> 400"
  by (simp add: patch_vehicle_def Number_sanitized isNaN_def Let_def split: option.split list.split)

lemma mileage_abc: "StringToNumber (digits_only ''abc'') = Fin 0"
proof -
  have "dec_value (digits_only ''abc'') = 0"
    by (simp add: digits_only_def is_digit_def dec_value_def)
  then show ?thesis by (simp add: Number_sanitized)
qed

text \<open>
  C1. The claim: a \<open>PATCH /api/vehicles/:id\<close> whose mileage is not numeric is answered 400
  and updates no row. The handler strips every character that is not a digit before it
  calls \<open>Number\<close>, so \<open>isNaN\<close> never holds (\<open>patch_vehicle_never_400\<close>): a body with mileage
  \<open>"abc"\<close> is answered 200 and the row's mileage 42000 is overwritten with 0.
\<close>

theorem patch_vehicle_non_numeric_mileage:
  "patch_vehicle False 1 (Obj [(''mileage'', Str ''abc'')]) driven_table =
     (\<lparr>status = 200, body = Row civic_row\<rparr>, civic_table)"
  by (simp add: patch_vehicle_def get_prop_def nullish_or_def mileage_abc isNaN_def Let_def
      civic_table_def civic_row_def driven_table_def)

subsection \<open>Creating a vehicle\<close>

lemma post_vehicles_rejects:
  assumes "req_body \<noteq> Undefined" "req_body \<noteq> Null"
    and "\<not> truthy (get_prop req_body ''year'') \<or> \<not> truthy (get_prop req_body ''make'')
         \<or> \<not> truthy (get_prop req_body ''model'')"
  shows "post_vehicles raises req_body t =
     (\<lparr>status = 400, body = Error ''year, make, and model are required''\<rparr>, t)"
  using assms by (auto simp: post_vehicles_def Let_def)

lemma post_vehicles_creates:
  assumes "req_body \<noteq> Undefined" "req_body \<noteq> Null"
    and "truthy (get_prop req_body ''year'')" "truthy (get_prop req_body ''make'')"
        "truthy (get_prop req_body ''model'')"
    and "String_js (nullish_or (get_prop req_body ''mileage'') (Str ''0'')) = Some s"
    and "Number_js (get_prop req_body ''year'') = Some y"
    and "\<not> raises"
  shows "post_vehicles raises req_body t =
     (\<lparr>status = 201, body = Row \<lparr>v_id = next_id t, v_year = PNumber y,
          v_make = get_prop req_body ''make'', v_model = get_prop req_body ''model'',
          v_mileage = PNumber (Fin (of_nat (dec_value (digits_only s))))\<rparr>\<rparr>,
      \<lparr>rows = rows t @ [\<lparr>v_id = next_id t, v_year = PNumber y,
          v_make = get_prop req_body ''make'', v_model = get_prop req_body ''model'',
          v_mileage = PNumber (Fin (of_nat (dec_value (digits_only s))))\<rparr>],
       next_id = Suc (next_id t)\<rparr>)"
  using assms by (simp add: post_vehicles_def Let_def num_or_sanitized)

lemma post_vehicles_fails:
  assumes "req_body \<noteq> Undefined" "req_body \<noteq> Null"
    and "truthy (get_prop req_body ''year'')" "truthy (get_prop req_body ''make'')"
        "truthy (get_prop req_body ''model'')"
    and "raises \<or> String_js (nullish_or (get_prop req_body ''mileage'') (Str ''0'')) = None
         \<or> Number_js (get_prop req_body ''year'') = None"
  shows "post_vehicles raises req_body t =
     (\<lparr>status = 500, body = Error ''Failed to save vehicle''\<rparr>, t)"
  using assms by (auto simp: post_vehicles_def Let_def split: option.split)

lemma post_vehicles_rev2_never_400:
  "fst (post_vehicles_rev2 raises req_body t) = Some rsp \<Longrightarrow> status rsp \<noteq> 400"
  by (auto simp: post_vehicles_rev2_def Let_def split: if_splits)

lemma get_vehicles_rev2_scan:
  "\<not> raises \<Longrightarrow> get_vehicles_rev2 raises scan t = \<lparr>status = 200, body = Rows (scan (rows t))\<rparr>"
  by (simp add: get_vehicles_rev2_def)






text \<open>
  C4, as amended. In the full server, a body in which year, make or model is missing or
  falsy (\<open>0\<close>, the empty string, \<open>null\<close>, \<open>false\<close>) is answered 400 and the table is left as
  it was; otherwise, when a conversion throws or the store raises, the reply is 500 and
  the table is left as it was; otherwise the reply is 201 with the new row, which is
  appended to the table. The second revision of the server checks nothing and never
  answers 400.
\<close>

theorem post_vehicles_required_fields:
  assumes "req_body \<noteq> Undefined" "req_body \<noteq> Null"
  shows "(if \<not> truthy (get_prop req_body ''year'') \<or> \<not> truthy (get_prop req_body ''make'')
             \<or> \<not> truthy (get_prop req_body ''model'')
          then post_vehicles raises req_body t =
                 (\<lparr>status = 400, body = Error ''year, make, and model are required''\<rparr>, t)
          else if raises
             \<or> String_js (nullish_or (get_prop req_body ''mileage'') (Str ''0'')) = None
             \<or> Number_js (get_prop req_body ''year'') = None
          then post_vehicles raises req_body t =
                 (\<lparr>status = 500, body = Error ''Failed to save vehicle''\<rparr>, t)
          else (\<exists>r. post_vehicles raises req_body t =
                   (\<lparr>status = 201, body = Row r\<rparr>,
                    \<lparr>rows = rows t @ [r], next_id = Suc (next_id t)\<rparr>)
                 \<and> v_id r = next_id t
                 \<and> v_make r = get_prop req_body ''make''
                 \<and> v_model r = get_prop req_body ''model''))
         \<and> (\<forall>rsp. fst (post_vehicles_rev2 raises req_body t) = Some rsp \<longrightarrow> status rsp \<noteq> 400)"
proof -
  let ?missing = "\<not> truthy (get_prop req_body ''year'') \<or> \<not> truthy (get_prop req_body ''make'')
             \<or> \<not> truthy (get_prop req_body ''model'')"
  let ?fails = "raises
             \<or> String_js (nullish_or (get_prop req_body ''mileage'') (Str ''0'')) = None
             \<or> Number_js (get_prop req_body ''year'') = None"
  have a: "post_vehicles raises req_body t =
       (\<lparr>status = 400, body = Error ''year, make, and model are required''\<rparr>, t)" if ?missing
    using post_vehicles_rejects[OF assms that] .
  have b: "post_vehicles raises req_body t =
       (\<lparr>status = 500, body = Error ''Failed to save vehicle''\<rparr>, t)" if "\<not> ?missing" ?fails
    using post_vehicles_fails[OF assms _ _ _ that(2)] that(1) by blast
  have c: "\<exists>r. post_vehicles raises req_body t =
                   (\<lparr>status = 201, body = Row r\<rparr>,
                    \<lparr>rows = rows t @ [r], next_id = Suc (next_id t)\<rparr>)
                 \<and> v_id r = next_id t
                 \<and> v_make r = get_prop req_body ''make''
                 \<and> v_model r = get_prop req_body ''model''" if "\<not> ?missing" "\<not> ?fails"
  proof -
    from that obtain s y where
      "String_js (nullish_or (get_prop req_body ''mileage'') (Str ''0'')) = Some s"
      "Number_js (get_prop req_body ''year'') = Some y" by auto
    from post_vehicles_creates[OF assms _ _ _ this, of raises t] that show ?thesis by auto
  qed
  have d: "\<forall>rsp. fst (post_vehicles_rev2 raises req_body t) = Some rsp \<longrightarrow> status rsp \<noteq> 400"
    using post_vehicles_rev2_never_400 by blast
  show ?thesis
  proof (cases ?missing)
    case True
    with a d show ?thesis by presburger
  next
    case False
    show ?thesis
    proof (cases ?fails)
      case True
      with False b d show ?thesis by presburger
    next
      case nf: False
      with False c d show ?thesis by presburger
    qed
  qed
qed

theorem post_vehicles_model_missing:
  "post_vehicles False (Obj [(''year'', Num 2020), (''make'', Str ''Honda'')]) empty_vehicles =
     (\<lparr>status = 400, body = Error ''year, make, and model are required''\<rparr>, empty_vehicles)"
  using post_vehicles_required_fields
    [of "Obj [(''year'', Num 2020), (''make'', Str ''Honda'')]" False empty_vehicles]
  by (simp add: get_prop_def truthy_def)

theorem post_vehicles_year_zero:
  "post_vehicles False
     (Obj [(''year'', Num 0), (''make'', Str ''Honda''), (''model'', Str ''Civic'')])
     empty_vehicles =
     (\<lparr>status = 400, body = Error ''year, make, and model are required''\<rparr>, empty_vehicles)
   \<and> post_vehicles_rev2 False (Obj [(''year'', Num 2020), (''make'', Str ''Honda'')])
       empty_vehicles =
     (Some \<lparr>status = 201, body = SuccessRow \<lparr>v_id = 1, v_year = PValue (Num 2020),
        v_make = Str ''Honda'', v_model = Undefined, v_mileage = PValue Undefined\<rparr>\<rparr>,
      \<lparr>rows = [\<lparr>v_id = 1, v_year = PValue (Num 2020),
        v_make = Str ''Honda'', v_model = Undefined, v_mileage = PValue Undefined\<rparr>],
       next_id = 2\<rparr>)"
  by (simp add: post_vehicles_def post_vehicles_rev2_def get_prop_def truthy_def
      empty_vehicles_def Let_def)

subsection \<open>Replies of the operations that change the table\<close>

lemma patch_vehicle_statement:
  assumes "String_js (nullish_or (get_prop req_body ''mileage'') (Str ''0'')) = Some s"
    and "\<not> raises"
  shows "patch_vehicle raises ident req_body t =
     (case filter (\<lambda>r. v_id r = ident)
             (map (\<lambda>r. if v_id r = ident
                then r\<lparr>v_mileage := PNumber (Fin (of_nat (dec_value (digits_only s))))\<rparr>
                else r) (rows t)) of
        [] \<Rightarrow> (\<lparr>status = 404, body = Error ''Vehicle not found''\<rparr>, t)
      | r # _ \<Rightarrow> (\<lparr>status = 200, body = Row r\<rparr>,
          t\<lparr>rows := map (\<lambda>r. if v_id r = ident
                then r\<lparr>v_mileage := PNumber (Fin (of_nat (dec_value (digits_only s))))\<rparr>
                else r) (rows t)\<rparr>))"
  using assms by (simp add: patch_vehicle_def Let_def isNaN_def Number_sanitized)

lemma patch_vehicle_not_200:
  assumes "String_js (nullish_or (get_prop req_body ''mileage'') (Str ''0'')) = None \<or> raises"
  shows "fst (patch_vehicle raises ident req_body t) =
           \<lparr>status = 500, body = Error ''Failed to update vehicle''\<rparr>"
    and "snd (patch_vehicle raises ident req_body t) = t"
  using assms
  by (auto simp: patch_vehicle_def Let_def isNaN_def Number_sanitized split: option.split)

lemma patch_vehicle_ok:
  assumes "status (fst (patch_vehicle raises ident req_body t)) = 200"
  shows "\<exists>r. body (fst (patch_vehicle raises ident req_body t)) = Row r
     \<and> r \<in> set (rows (snd (patch_vehicle raises ident req_body t))) \<and> v_id r = ident"
proof -
  have "\<not> (String_js (nullish_or (get_prop req_body ''mileage'') (Str ''0'')) = None \<or> raises)"
  proof
    assume "String_js (nullish_or (get_prop req_body ''mileage'') (Str ''0'')) = None \<or> raises"
    from patch_vehicle_not_200(1)[OF this, of ident t] assms show False by simp
  qed
  then obtain s where
    s: "String_js (nullish_or (get_prop req_body ''mileage'') (Str ''0'')) = Some s"
    and nr: "\<not> raises" by auto
  define upd where "upd = map (\<lambda>r. if v_id r = ident
      then r\<lparr>v_mileage := PNumber (Fin (of_nat (dec_value (digits_only s))))\<rparr> else r) (rows t)"
  note eq = patch_vehicle_statement[OF s nr, of ident t, folded upd_def]
  show ?thesis
  proof (cases "filter (\<lambda>r. v_id r = ident) upd")
    case Nil
    with assms eq show ?thesis by simp
  next
    case (Cons r rs)
    then have "r \<in> set (filter (\<lambda>r. v_id r = ident) upd)" by simp
    then have "r \<in> set upd" "v_id r = ident" by auto
    with Cons eq show ?thesis by simp
  qed
qed

text \<open>
  C2, as amended. Creating a vehicle (201) and updating a mileage (200) reply with the
  resulting row, which is then in the table. Deleting by identifier replies with
  \<open>{success: true, deletedId: id}\<close> and deleting all with a confirmation message: neither
  reply carries a row.
\<close>

theorem mutating_vehicle_replies:
  "(status (fst (post_vehicles raises req_body t)) = 201 \<longrightarrow>
      (\<exists>r. body (fst (post_vehicles raises req_body t)) = Row r
          \<and> rows (snd (post_vehicles raises req_body t)) = rows t @ [r]))
   \<and> (status (fst (patch_vehicle raises ident req_body t)) = 200 \<longrightarrow>
      (\<exists>r. body (fst (patch_vehicle raises ident req_body t)) = Row r
          \<and> r \<in> set (rows (snd (patch_vehicle raises ident req_body t))) \<and> v_id r = ident))
   \<and> (status (fst (delete_vehicle raises ident t)) = 200 \<longrightarrow>
        body (fst (delete_vehicle raises ident t)) = Deleted ident
      \<and> rows (snd (delete_vehicle raises ident t)) = filter (\<lambda>r. v_id r \<noteq> ident) (rows t))
   \<and> (status (fst (delete_all_vehicles raises t)) = 200 \<longrightarrow>
        body (fst (delete_all_vehicles raises t)) = Message ''All vehicles deleted.''
      \<and> rows (snd (delete_all_vehicles raises t)) = [])"
proof -
  have 1: "status (fst (post_vehicles raises req_body t)) = 201 \<longrightarrow>
      (\<exists>r. body (fst (post_vehicles raises req_body t)) = Row r
          \<and> rows (snd (post_vehicles raises req_body t)) = rows t @ [r])"
    by (simp add: post_vehicles_def Let_def split: option.split)
  have 2: "status (fst (patch_vehicle raises ident req_body t)) = 200 \<longrightarrow>
      (\<exists>r. body (fst (patch_vehicle raises ident req_body t)) = Row r
          \<and> r \<in> set (rows (snd (patch_vehicle raises ident req_body t))) \<and> v_id r = ident)"
    using patch_vehicle_ok by blast
  have 3: "status (fst (delete_vehicle raises ident t)) = 200 \<longrightarrow>
        body (fst (delete_vehicle raises ident t)) = Deleted ident
      \<and> rows (snd (delete_vehicle raises ident t)) = filter (\<lambda>r. v_id r \<noteq> ident) (rows t)"
    by (simp add: delete_vehicle_def Let_def)
  have 4: "status (fst (delete_all_vehicles raises t)) = 200 \<longrightarrow>
        body (fst (delete_all_vehicles raises t)) = Message ''All vehicles deleted.''
      \<and> rows (snd (delete_all_vehicles raises t)) = []"
    by (simp add: delete_all_vehicles_def)
  from 1 2 3 4 show ?thesis by blast
qed


lemma delete_civic:
  "delete_vehicle False (Suc 0) civic_table =
     (\<lparr>status = 200, body = Deleted (Suc 0)\<rparr>, \<lparr>rows = [], next_id = 2\<rparr>)"
  by (simp add: delete_vehicle_def civic_table_def civic_row_def Let_def)

lemma delete_all_civic:
  "delete_all_vehicles False civic_table =
     (\<lparr>status = 200, body = Message ''All vehicles deleted.''\<rparr>, empty_vehicles)"
  by (simp add: delete_all_vehicles_def empty_vehicles_def)

theorem mutating_vehicle_replies_civic:
  "body (fst (delete_vehicle False 1 civic_table)) = Deleted 1
   \<and> rows (snd (delete_vehicle False 1 civic_table)) = []
   \<and> body (fst (delete_all_vehicles False civic_table)) = Message ''All vehicles deleted.''
   \<and> rows (snd (delete_all_vehicles False civic_table)) = []
   \<and> body (fst (patch_vehicle False 1 (Obj [(''mileage'', Str ''abc'')]) driven_table))
       = Row civic_row"
proof -
  have d: "status (fst (delete_vehicle False 1 civic_table)) = 200"
    by (simp add: delete_civic)
  have a: "status (fst (delete_all_vehicles False civic_table)) = 200"
    by (simp add: delete_all_civic)
  have f: "filter (\<lambda>r. v_id r \<noteq> 1) (rows civic_table) = []"
    by (simp add: civic_table_def civic_row_def)
  have p: "patch_vehicle False 1 (Obj [(''mileage'', Str ''abc'')]) driven_table =
     (\<lparr>status = 200, body = Row civic_row\<rparr>, civic_table)"
    by (simp add: patch_vehicle_def get_prop_def nullish_or_def mileage_abc isNaN_def Let_def
      civic_table_def civic_row_def driven_table_def)
  from mutating_vehicle_replies[of False civic_body civic_table 1] d a f p
  show ?thesis by simp
qed

theorem delete_replies_carry_no_row:
  "fst (delete_vehicle False 1 civic_table) = \<lparr>status = 200, body = Deleted 1\<rparr>
   \<and> \<not> carries_row (body (fst (delete_vehicle False 1 civic_table)))
   \<and> fst (delete_all_vehicles False civic_table) =
       \<lparr>status = 200, body = Message ''All vehicles deleted.''\<rparr>
   \<and> \<not> carries_row (body (fst (delete_all_vehicles False civic_table)))"
  by (simp add: delete_civic delete_all_civic carries_row_def)

subsection \<open>An identifier that matches no row\<close>




subsection \<open>Deleting every vehicle\<close>

text \<open>
  C8. \<open>DELETE /api/vehicles/all\<close> empties the table and restarts its identity sequence,
  from any state: the table is the empty one again, and a \<open>GET /api/vehicles\<close> after it
  replies with the empty array (the store answering both statements).
\<close>

theorem delete_all_then_get:
  assumes "\<not> raises" "\<not> raises'"
  shows "snd (delete_all_vehicles raises t) = empty_vehicles
     \<and> get_vehicles raises' (snd (delete_all_vehicles raises t)) = \<lparr>status = 200, body = Rows []\<rparr>"
  using assms
  by (simp add: delete_all_vehicles_def empty_vehicles_def get_vehicles_def order_by_id_desc_def)

theorem delete_all_then_get_civic:
  "snd (delete_all_vehicles False civic_table) = empty_vehicles
   \<and> get_vehicles False (snd (delete_all_vehicles False civic_table)) =
       \<lparr>status = 200, body = Rows []\<rparr>"
  by (rule delete_all_then_get) simp_all

subsection \<open>Listing the vehicles\<close>














subsection \<open>Creating a service record\<close>

text \<open>
  C10. In \<open>POST /api/services\<close>, when \<open>vehicle_id\<close> and \<open>service_name\<close> are given and the
  store takes the row, each of \<open>interval\<close>, \<open>service_date\<close>, \<open>cost\<close> and \<open>notes\<close> is stored
  and returned as given when truthy and as \<open>null\<close> when falsy (\<open>0\<close>, the empty string,
  absent): a record created with cost 0 has a \<open>null\<close> cost. The mileage is bound as given.
\<close>

theorem post_services_falsy_to_null:
  assumes "req_body \<noteq> Undefined" "req_body \<noteq> Null"
    and "truthy (get_prop req_body ''vehicle_id'')" "truthy (get_prop req_body ''service_name'')"
    and "\<not> raises"
  shows "\<exists>r. post_services raises req_body t =
           (\<lparr>status = 201, body = Row r\<rparr>,
            \<lparr>s_rows = s_rows t @ [r], s_next_id = Suc (s_next_id t)\<rparr>)
     \<and> s_interval r = (if truthy (get_prop req_body ''interval'')
                       then get_prop req_body ''interval'' else Null)
     \<and> s_service_date r = (if truthy (get_prop req_body ''service_date'')
                       then get_prop req_body ''service_date'' else Null)
     \<and> s_cost r = (if truthy (get_prop req_body ''cost'') then get_prop req_body ''cost'' else Null)
     \<and> s_notes r = (if truthy (get_prop req_body ''notes'') then get_prop req_body ''notes'' else Null)
     \<and> s_mileage r = get_prop req_body ''mileage''"
  using assms by (simp add: post_services_def Let_def or_js_def)

theorem post_services_cost_zero:
  "\<exists>r. post_services False oil_body \<lparr>s_rows = [], s_next_id = 1\<rparr> =
         (\<lparr>status = 201, body = Row r\<rparr>, \<lparr>s_rows = [r], s_next_id = 2\<rparr>)
     \<and> s_interval r = Null \<and> s_service_date r = Null \<and> s_cost r = Null \<and> s_notes r = Null
     \<and> s_mileage r = Num 0"
proof -
  have f: "oil_body \<noteq> Undefined" "oil_body \<noteq> Null"
    "get_prop oil_body ''vehicle_id'' = Num 1" "get_prop oil_body ''service_name'' = Str ''Oil change''"
    "get_prop oil_body ''mileage'' = Num 0" "get_prop oil_body ''interval'' = Num 0"
    "get_prop oil_body ''service_date'' = Str []" "get_prop oil_body ''cost'' = Num 0"
    "get_prop oil_body ''notes'' = Str []"
    by (simp_all add: oil_body_def get_prop_def)
  have t: "truthy (get_prop oil_body ''vehicle_id'')" "truthy (get_prop oil_body ''service_name'')"
    by (simp_all add: f truthy_def)
  from post_services_falsy_to_null[OF f(1,2) t, of False "\<lparr>s_rows = [], s_next_id = 1\<rparr>"]
  show ?thesis by (auto simp: f truthy_def numeral_2_eq_2)
qed

subsection \<open>The models of a make and year\<close>













subsection \<open>Querying the catalog\<close>





lemma str_includes_iff:
  "str_includes s v \<longleftrightarrow> (\<exists>k\<le>length s. take (length v) (drop k s) = v)"
proof (induction s)
  case Nil
  show ?case by auto
next
  case (Cons c s)
  have "(\<exists>k\<le>length (c # s). take (length v) (drop k (c # s)) = v)
      \<longleftrightarrow> take (length v) (c # s) = v \<or> (\<exists>k\<le>length s. take (length v) (drop k s) = v)"
  proof
    assume "\<exists>k\<le>length (c # s). take (length v) (drop k (c # s)) = v"
    then obtain k where k: "k \<le> length (c # s)" "take (length v) (drop k (c # s)) = v" by blast
    show "take (length v) (c # s) = v \<or> (\<exists>k\<le>length s. take (length v) (drop k s) = v)"
    proof (cases k)
      case 0
      with k show ?thesis by simp
    next
      case (Suc j)
      with k show ?thesis by auto
    qed
  next
    assume "take (length v) (c # s) = v \<or> (\<exists>k\<le>length s. take (length v) (drop k s) = v)"
    then show "\<exists>k\<le>length (c # s). take (length v) (drop k (c # s)) = v"
    proof
      assume "take (length v) (c # s) = v"
      then have "0 \<le> length (c # s) \<and> take (length v) (drop 0 (c # s)) = v" by simp
      then show ?thesis by blast
    next
      assume "\<exists>k\<le>length s. take (length v) (drop k s) = v"
      then obtain k where "k \<le> length s" "take (length v) (drop k s) = v" by blast
      then have "Suc k \<le> length (c # s) \<and> take (length v) (drop (Suc k) (c # s)) = v" by simp
      then show ?thesis by blast
    qed
  qed
  with Cons show ?case by simp
qed

lemma str_includes_sublist: "str_includes s v \<longleftrightarrow> sublist v s"
proof
  assume "str_includes s v"
  then obtain k where "k \<le> length s" "take (length v) (drop k s) = v"
    by (auto simp: str_includes_iff)
  then have "s = take k s @ v @ drop (length v) (drop k s)"
    by (metis append_take_drop_id)
  then show "sublist v s" unfolding sublist_def by blast
next
  assume "sublist v s"
  then obtain ps ss where "s = ps @ v @ ss" unfolding sublist_def by blast
  then have "length ps \<le> length s \<and> take (length v) (drop (length ps) s) = v" by simp
  then show "str_includes s v" unfolding str_includes_iff by blast
qed
























end
